theory Spec2Isabelle
  imports Complex_Main "HOL-Library.AList"
begin

section \<open>Floating-point values\<close>

text \<open>
  The interpolation works on IEEE doubles (NumPy arrays, pandas Series and Python floats).
  A double is modelled as a real number or one of the three special values; rounding,
  overflow and the sign of zero are not modelled. The special values matter to the code:
  NumPy's division by zero yields an infinity or NaN instead of raising, every comparison
  with NaN is false, and \<open>int(nan)\<close> raises.
\<close>

datatype fval = Fin real | PInf | NInf | NaN

fun fneg :: "fval \<Rightarrow> fval" where
  "fneg (Fin a) = Fin (- a)"
| "fneg PInf = NInf"
| "fneg NInf = PInf"
| "fneg NaN = NaN"

fun fadd :: "fval \<Rightarrow> fval \<Rightarrow> fval" where
  "fadd (Fin a) (Fin b) = Fin (a + b)"
| "fadd NaN _ = NaN"
| "fadd _ NaN = NaN"
| "fadd PInf NInf = NaN"
| "fadd NInf PInf = NaN"
| "fadd PInf _ = PInf"
| "fadd _ PInf = PInf"
| "fadd NInf _ = NInf"
| "fadd _ NInf = NInf"

definition fsub :: "fval \<Rightarrow> fval \<Rightarrow> fval" where
  "fsub a b = fadd a (fneg b)"

text \<open>The sign of an infinity multiplied or divided by a finite number.\<close>

definition inf_signed :: "bool \<Rightarrow> fval" where
  "inf_signed positive = (if positive then PInf else NInf)"

fun fmul :: "fval \<Rightarrow> fval \<Rightarrow> fval" where
  "fmul (Fin a) (Fin b) = Fin (a * b)"
| "fmul NaN _ = NaN"
| "fmul _ NaN = NaN"
| "fmul PInf (Fin b) = (if b = 0 then NaN else inf_signed (0 < b))"
| "fmul NInf (Fin b) = (if b = 0 then NaN else inf_signed (b < 0))"
| "fmul (Fin a) PInf = (if a = 0 then NaN else inf_signed (0 < a))"
| "fmul (Fin a) NInf = (if a = 0 then NaN else inf_signed (a < 0))"
| "fmul PInf PInf = PInf"
| "fmul NInf NInf = PInf"
| "fmul PInf NInf = NInf"
| "fmul NInf PInf = NInf"

text \<open>
  NumPy's division: a finite number divided by zero is an infinity of its sign, and
  \<open>0 / 0\<close> is NaN; nothing is raised.
\<close>

fun fdiv :: "fval \<Rightarrow> fval \<Rightarrow> fval" where
  "fdiv (Fin a) (Fin b) =
     (if b = 0 then (if a = 0 then NaN else inf_signed (0 < a)) else Fin (a / b))"
| "fdiv NaN _ = NaN"
| "fdiv _ NaN = NaN"
| "fdiv (Fin a) PInf = Fin 0"
| "fdiv (Fin a) NInf = Fin 0"
| "fdiv PInf (Fin b) = inf_signed (0 \<le> b)"
| "fdiv NInf (Fin b) = inf_signed (b < 0)"
| "fdiv PInf PInf = NaN"
| "fdiv PInf NInf = NaN"
| "fdiv NInf PInf = NaN"
| "fdiv NInf NInf = NaN"

text \<open>The comparisons \<open>a > b\<close> and \<open>a <= b\<close>; both are false when an operand is NaN.\<close>

fun fgt :: "fval \<Rightarrow> fval \<Rightarrow> bool" where
  "fgt (Fin a) (Fin b) = (b < a)"
| "fgt NaN _ = False"
| "fgt _ NaN = False"
| "fgt PInf PInf = False"
| "fgt PInf _ = True"
| "fgt NInf _ = False"
| "fgt (Fin a) PInf = False"
| "fgt (Fin a) NInf = True"

fun fle :: "fval \<Rightarrow> fval \<Rightarrow> bool" where
  "fle (Fin a) (Fin b) = (a \<le> b)"
| "fle NaN _ = False"
| "fle _ NaN = False"
| "fle NInf _ = True"
| "fle PInf PInf = True"
| "fle PInf _ = False"
| "fle (Fin a) PInf = True"
| "fle (Fin a) NInf = False"

text \<open>\<open>np.rint\<close>: the nearest integer, a tie going to the even neighbour.\<close>

definition rint :: "real \<Rightarrow> int" where
  "rint r =
     (let f = \<lfloor>r\<rfloor>; d = r - of_int f
      in if d < 1 / 2 then f else if 1 / 2 < d then f + 1 else if even f then f else f + 1)"

fun frint :: "fval \<Rightarrow> fval" where
  "frint (Fin r) = Fin (of_int (rint r))"
| "frint v = v"

text \<open>\<open>Series.clip(lower, upper)\<close> with finite bounds; NaN stays NaN.\<close>

fun fclip :: "real \<Rightarrow> real \<Rightarrow> fval \<Rightarrow> fval" where
  "fclip lower upper (Fin r) = Fin (min (max r lower) upper)"
| "fclip lower upper PInf = Fin upper"
| "fclip lower upper NInf = Fin (min lower upper)"
| "fclip lower upper NaN = NaN"

text \<open>\<open>np.sqrt\<close>: NaN on a negative argument.\<close>

fun fsqrt :: "fval \<Rightarrow> fval" where
  "fsqrt (Fin r) = (if r < 0 then NaN else Fin (sqrt r))"
| "fsqrt PInf = PInf"
| "fsqrt NInf = NaN"
| "fsqrt NaN = NaN"

section \<open>Python errors and sequencing\<close>

datatype py_error =
    ValueError string
  | KeyError string
  | ZeroDivisionError
  | OverflowError
  | IndexError
  | TypeError

definition ebind :: "py_error + 'a \<Rightarrow> ('a \<Rightarrow> py_error + 'b) \<Rightarrow> py_error + 'b" where
  "ebind m f = (case m of Inl e \<Rightarrow> Inl e | Inr v \<Rightarrow> f v)"

text \<open>A \<open>for\<close> loop over a list that stops at the first exception.\<close>

fun efold :: "('a \<Rightarrow> 's \<Rightarrow> py_error + 's) \<Rightarrow> 'a list \<Rightarrow> 's \<Rightarrow> py_error + 's" where
  "efold f [] s = Inr s"
| "efold f (a # as) s = (case f a s of Inl e \<Rightarrow> Inl e | Inr s' \<Rightarrow> efold f as s')"

text \<open>\<open>range(a, b)\<close>: the integers from \<open>a\<close> up to but excluding \<open>b\<close>.\<close>

definition py_range :: "int \<Rightarrow> int \<Rightarrow> int list" where
  "py_range a b = [a..b - 1]"

text \<open>\<open>int(v)\<close> on a float truncates towards zero and raises on NaN and infinities.\<close>

fun to_int :: "fval \<Rightarrow> py_error + int" where
  "to_int (Fin r) = Inr (if 0 \<le> r then \<lfloor>r\<rfloor> else \<lceil>r\<rceil>)"
| "to_int NaN = Inl (ValueError ''cannot convert float NaN to integer'')"
| "to_int PInf = Inl OverflowError"
| "to_int NInf = Inl OverflowError"

text \<open>Python float division \<open>a / b\<close>, which raises on a zero divisor.\<close>

definition py_div :: "fval \<Rightarrow> fval \<Rightarrow> py_error + fval" where
  "py_div a b = (if b = Fin 0 then Inl ZeroDivisionError else Inr (fdiv a b))"

text \<open>
  Indexing a sequence of length \<open>n\<close>: a negative index counts from the end, anything
  outside \<open>-n \<le> i < n\<close> raises IndexError.
\<close>

definition py_index :: "nat \<Rightarrow> int \<Rightarrow> py_error + nat" where
  "py_index n i =
     (if 0 \<le> i \<and> i < int n then Inr (nat i)
      else if - int n \<le> i \<and> i < 0 then Inr (nat (i + int n))
      else Inl IndexError)"

section \<open>Kernels and data frames\<close>

text \<open>
  A kernel as \<open>interpolate2D\<close> uses it: its dimensionality, its support radius in
  units of the smoothing length, and its weight function. The kernel classes themselves
  are not part of the modelled sources, so a kernel is a parameter.
\<close>

record kernel =
  ndims :: int
  radkernel :: fval
  w :: "fval \<Rightarrow> fval"

text \<open>
  A pandas DataFrame: the row labels in order, and the columns by label, in order. A
  column is a Series aligned on the row labels, so it is a function of the label;
  selecting rows changes the index only. A frame built with \<open>pd.DataFrame()\<close> takes
  its index from the first Series stored in it, here always a column of \<open>data\<close>.
\<close>

type_synonym series = "nat \<Rightarrow> fval"

record frame =
  index :: "nat list"
  columns :: "(string \<times> series) list"

text \<open>\<open>c in df\<close>, \<open>df[c]\<close> and \<open>df[c] = s\<close>; a new column goes last.\<close>

definition has_column :: "'a frame_scheme \<Rightarrow> string \<Rightarrow> bool" where
  "has_column df c = (c \<in> fst ` set (columns df))"

definition getitem :: "'a frame_scheme \<Rightarrow> string \<Rightarrow> py_error + series" where
  "getitem df c = (case map_of (columns df) c of None \<Rightarrow> Inl (KeyError c) | Some s \<Rightarrow> Inr s)"

definition setitem :: "'a frame_scheme \<Rightarrow> string \<Rightarrow> series \<Rightarrow> 'a frame_scheme" where
  "setitem df c s = df\<lparr>columns := AList.update c s (columns df)\<rparr>"

text \<open>\<open>df[keep]\<close> with a boolean Series: the rows where it is true, in order.\<close>

definition select_rows :: "'a frame_scheme \<Rightarrow> (nat \<Rightarrow> bool) \<Rightarrow> 'a frame_scheme" where
  "select_rows df keep = df\<lparr>index := filter keep (index df)\<rparr>"

definition fpow2 :: "fval \<Rightarrow> fval" where
  "fpow2 v = fmul v v"

section \<open>interpolate2D\<close>

text \<open>
  One axis of lines 62 to 69: the lower and the upper bound of a particle's footprint
  along an axis, as a pixel index, rounded and clipped to \<open>[0, pixcount]\<close>.
\<close>

definition pixmin :: "fval \<Rightarrow> fval \<Rightarrow> fval \<Rightarrow> fval \<Rightarrow> fval \<Rightarrow> int \<Rightarrow> fval" where
  "pixmin pos rk h origin pixwidth pixcount =
     fclip 0 (of_int pixcount) (frint (fdiv (fsub (fsub pos (fmul rk h)) origin) pixwidth))"

definition pixmax :: "fval \<Rightarrow> fval \<Rightarrow> fval \<Rightarrow> fval \<Rightarrow> fval \<Rightarrow> int \<Rightarrow> fval" where
  "pixmax pos rk h origin pixwidth pixcount =
     fclip 0 (of_int pixcount) (frint (fdiv (fsub (fadd pos (fmul rk h)) origin) pixwidth))"

text \<open>
  Lines 50 to 69: the working frame \<open>parts\<close>. The axis columns are stored under the
  labels \<open>'x'\<close> and \<open>'y'\<close>, but lines 62 to 69 read them back with \<open>parts[x]\<close> and
  \<open>parts[y]\<close>, the caller's labels, which the model does too. \<open>parts.drop\<close> on
  line 59 returns a new frame that is discarded, so it has no effect.
\<close>

definition build_parts ::
  "frame \<Rightarrow> string \<Rightarrow> string \<Rightarrow> string \<Rightarrow> kernel \<Rightarrow> fval \<Rightarrow> fval \<Rightarrow> fval \<Rightarrow> fval \<Rightarrow> int \<Rightarrow> int
     \<Rightarrow> py_error + frame" where
  "build_parts data x y target kern pixwidthx pixwidthy xmin ymin pixcountx pixcounty =
     ebind (getitem data x) (\<lambda>dx.
     ebind (getitem data y) (\<lambda>dy.
     ebind (getitem data ''h'') (\<lambda>dh.
     ebind (getitem data ''m'') (\<lambda>dm.
     ebind (getitem data ''rho'') (\<lambda>drho.
     ebind (getitem data ''h'') (\<lambda>dh2.
     let weight = (\<lambda>i. fdiv (dm i) (fmul (drho i) (fpow2 (dh2 i)))) in
     ebind (getitem data target) (\<lambda>dtarget.
     let term = (\<lambda>i. fmul (weight i) (dtarget i));
         parts0 = \<lparr>index = index data,
                   columns = [(''x'', dx), (''y'', dy), (''h'', dh),
                              (''weight'', weight), (''term'', term)]\<rparr>;
         parts1 = select_rows parts0 (\<lambda>i. fgt (weight i) (Fin 0))
     in
     ebind (getitem parts1 x) (\<lambda>px.
     ebind (getitem parts1 ''h'') (\<lambda>ph.
     let parts2 = setitem parts1 ''ipixmin''
                    (\<lambda>i. pixmin (px i) (radkernel kern) (ph i) xmin pixwidthx pixcountx) in
     ebind (getitem parts2 y) (\<lambda>py.
     ebind (getitem parts2 ''h'') (\<lambda>ph.
     let parts3 = setitem parts2 ''jpixmin''
                    (\<lambda>i. pixmin (py i) (radkernel kern) (ph i) ymin pixwidthy pixcounty) in
     ebind (getitem parts3 x) (\<lambda>px.
     ebind (getitem parts3 ''h'') (\<lambda>ph.
     let parts4 = setitem parts3 ''ipixmax''
                    (\<lambda>i. pixmax (px i) (radkernel kern) (ph i) xmin pixwidthx pixcountx) in
     ebind (getitem parts4 y) (\<lambda>py.
     ebind (getitem parts4 ''h'') (\<lambda>ph.
     Inr (setitem parts4 ''jpixmax''
            (\<lambda>i. pixmax (py i) (radkernel kern) (ph i) ymin pixwidthy pixcounty)))))))))))))))))"

text \<open>A row of \<open>parts.itertuples()\<close>.\<close>

record part =
  part_x :: fval
  part_y :: fval
  part_h :: fval
  part_weight :: fval
  part_term :: fval
  part_ipixmin :: fval
  part_jpixmin :: fval
  part_ipixmax :: fval
  part_jpixmax :: fval

definition itertuples :: "frame \<Rightarrow> py_error + part list" where
  "itertuples parts =
     ebind (getitem parts ''x'') (\<lambda>cx.
     ebind (getitem parts ''y'') (\<lambda>cy.
     ebind (getitem parts ''h'') (\<lambda>ch.
     ebind (getitem parts ''weight'') (\<lambda>cweight.
     ebind (getitem parts ''term'') (\<lambda>cterm.
     ebind (getitem parts ''ipixmin'') (\<lambda>cimin.
     ebind (getitem parts ''jpixmin'') (\<lambda>cjmin.
     ebind (getitem parts ''ipixmax'') (\<lambda>cimax.
     ebind (getitem parts ''jpixmax'') (\<lambda>cjmax.
     Inr (map (\<lambda>i. \<lparr>part_x = cx i, part_y = cy i, part_h = ch i, part_weight = cweight i,
                      part_term = cterm i, part_ipixmin = cimin i, part_jpixmin = cjmin i,
                      part_ipixmax = cimax i, part_jpixmax = cjmax i\<rparr>)
            (index parts)))))))))))"

text \<open>\<open>np.zeros\<close>, one- and two-dimensional.\<close>

definition zeros :: "nat \<Rightarrow> fval list" where
  "zeros n = replicate n (Fin 0)"

definition zeros2 :: "nat \<Rightarrow> nat \<Rightarrow> fval list list" where
  "zeros2 rows cols = replicate rows (zeros cols)"

text \<open>Line 76: \<open>dx2i[ipix] = ((xmin + (ipix + 0.5) * pixwidthx - part.x) ** 2) * (1 / (part.h ** 2))\<close>.\<close>

definition dx2 :: "fval \<Rightarrow> fval \<Rightarrow> part \<Rightarrow> int \<Rightarrow> py_error + fval" where
  "dx2 xmin pixwidthx p ipix =
     ebind (py_div (Fin 1) (fpow2 (part_h p))) (\<lambda>inv.
     Inr (fmul (fpow2 (fsub (fadd xmin (fmul (Fin (of_int ipix + 1 / 2)) pixwidthx)) (part_x p)))
            inv))"

definition dx2i_store :: "fval \<Rightarrow> fval \<Rightarrow> part \<Rightarrow> int \<Rightarrow> fval list \<Rightarrow> py_error + fval list" where
  "dx2i_store xmin pixwidthx p ipix dx2i =
     ebind (dx2 xmin pixwidthx p ipix) (\<lambda>v.
     ebind (py_index (length dx2i) ipix) (\<lambda>i.
     Inr (dx2i[i := v])))"

text \<open>Lines 81 to 83: \<open>dy2\<close> of a pixel row.\<close>

definition dy2 :: "fval \<Rightarrow> fval \<Rightarrow> part \<Rightarrow> int \<Rightarrow> py_error + fval" where
  "dy2 ymin pixwidthy p jpix =
     (let ypix = fadd ymin (fmul (Fin (of_int jpix + 1 / 2)) pixwidthy);
          dy = fsub ypix (part_y p)
      in ebind (py_div (Fin 1) (fpow2 (part_h p))) (\<lambda>inv. Inr (fmul (fmul dy dy) inv)))"

text \<open>Line 91: \<open>image[jpix][ipix] += v\<close>.\<close>

definition image_add :: "fval list list \<Rightarrow> int \<Rightarrow> int \<Rightarrow> fval \<Rightarrow> py_error + fval list list" where
  "image_add img jpix ipix v =
     ebind (py_index (length img) jpix) (\<lambda>j.
     ebind (py_index (length (img ! j)) ipix) (\<lambda>i.
     Inr (img[j := (img ! j)[i := fadd (img ! j ! i) v]])))"

text \<open>Lines 87 to 91: the body of the innermost loop.\<close>

definition pixel_step ::
  "kernel \<Rightarrow> part \<Rightarrow> fval list \<Rightarrow> fval \<Rightarrow> int \<Rightarrow> int \<Rightarrow> fval list list \<Rightarrow> py_error + fval list list" where
  "pixel_step kern p dx2i dy2v jpix ipix img =
     ebind (py_index (length dx2i) ipix) (\<lambda>i.
     let q2 = fadd (dx2i ! i) dy2v;
         wab = w kern (fsqrt q2)
     in image_add img jpix ipix (fmul (part_term p) wab))"

text \<open>\<open>range(int(lo), int(hi))\<close>, the pixels a loop visits along one axis.\<close>

definition axis_range :: "fval \<Rightarrow> fval \<Rightarrow> py_error + int list" where
  "axis_range lo hi =
     ebind (to_int lo) (\<lambda>a. ebind (to_int hi) (\<lambda>b. Inr (py_range a b)))"

text \<open>Lines 79 to 91: the loop over the pixel rows of one particle.\<close>

definition row_step ::
  "kernel \<Rightarrow> fval \<Rightarrow> fval \<Rightarrow> part \<Rightarrow> fval list \<Rightarrow> int \<Rightarrow> fval list list \<Rightarrow> py_error + fval list list" where
  "row_step kern pixwidthy ymin p dx2i jpix img =
     ebind (dy2 ymin pixwidthy p jpix) (\<lambda>dy2v.
     ebind (axis_range (part_ipixmin p) (part_ipixmax p)) (\<lambda>ipixs.
     efold (pixel_step kern p dx2i dy2v jpix) ipixs img))"

text \<open>Lines 73 to 91: the body of the loop over the particles.\<close>

definition accumulate ::
  "kernel \<Rightarrow> fval \<Rightarrow> fval \<Rightarrow> fval \<Rightarrow> fval \<Rightarrow> int \<Rightarrow> part \<Rightarrow> fval list list \<Rightarrow> py_error + fval list list" where
  "accumulate kern pixwidthx pixwidthy xmin ymin pixcountx p img =
     ebind (axis_range (part_ipixmin p) (part_ipixmax p)) (\<lambda>ipixs.
     ebind (efold (dx2i_store xmin pixwidthx p) ipixs (zeros (nat pixcountx))) (\<lambda>dx2i.
     ebind (axis_range (part_jpixmin p) (part_jpixmax p)) (\<lambda>jpixs.
     efold (row_step kern pixwidthy ymin p dx2i) jpixs img)))"

text \<open>Lines 35 to 45: the checks, in the order of the source.\<close>

definition validate :: "kernel \<Rightarrow> fval \<Rightarrow> fval \<Rightarrow> int \<Rightarrow> int \<Rightarrow> py_error option" where
  "validate kern pixwidthx pixwidthy pixcountx pixcounty =
     (if fle pixwidthx (Fin 0) then Some (ValueError ''pixwidthx must be greater than zero!'')
      else if fle pixwidthy (Fin 0) then Some (ValueError ''pixwidthy must be greater than zero!'')
      else if pixcountx \<le> 0 then Some (ValueError ''pixcountx must be greater than zero!'')
      else if pixcounty \<le> 0 then Some (ValueError ''pixcounty must be greater than zero!'')
      else if ndims kern \<noteq> 2 then Some (ValueError ''Kernel must be two-dimensional!'')
      else None)"

text \<open>The five errors that the checks can raise.\<close>

definition validation_errors :: "py_error set" where
  "validation_errors =
     {ValueError ''pixwidthx must be greater than zero!'',
      ValueError ''pixwidthy must be greater than zero!'',
      ValueError ''pixcountx must be greater than zero!'',
      ValueError ''pixcounty must be greater than zero!'',
      ValueError ''Kernel must be two-dimensional!''}"

definition interpolate2D ::
  "frame \<Rightarrow> string \<Rightarrow> string \<Rightarrow> string \<Rightarrow> kernel \<Rightarrow> fval \<Rightarrow> fval \<Rightarrow> fval \<Rightarrow> fval \<Rightarrow> int \<Rightarrow> int
     \<Rightarrow> py_error + fval list list" where
  "interpolate2D data x y target kern pixwidthx pixwidthy xmin ymin pixcountx pixcounty =
     (case validate kern pixwidthx pixwidthy pixcountx pixcounty of
        Some e \<Rightarrow> Inl e
      | None \<Rightarrow>
          let img = zeros2 (nat pixcounty) (nat pixcountx) in
          ebind (build_parts data x y target kern pixwidthx pixwidthy xmin ymin
                   pixcountx pixcounty) (\<lambda>parts.
          ebind (itertuples parts) (\<lambda>rows.
          efold (accumulate kern pixwidthx pixwidthy xmin ymin pixcountx) rows img)))"

section \<open>SarracenDataFrame\<close>

text \<open>
  A Python object as far as the \<open>kernel\<close> setter tells objects apart: an instance of
  \<open>BaseKernel\<close>, or something else.
\<close>

datatype py_object = KernelObject kernel | NoneObject | FloatObject fval | StrObject string

fun is_kernel :: "py_object \<Rightarrow> bool" where
  "is_kernel (KernelObject k) = True"
| "is_kernel _ = False"

text \<open>What a caller may pass as \<open>params\<close>: \<open>None\<close>, a dictionary, or another object.\<close>

datatype params_arg = ParamsNone | ParamsDict "string \<rightharpoonup> fval" | ParamsOther

text \<open>
  The class extends the DataFrame by the attributes below. \<open>units\<close> and \<open>backend\<close>
  are left out: none of the modelled methods reads them.
\<close>

record sdf = frame +
  params :: "(string \<rightharpoonup> fval) option"
  xcol :: "string option"
  ycol :: "string option"
  zcol :: "string option"
  hcol :: "string option"
  mcol :: "string option"
  rhocol :: "string option"
  vxcol :: "string option"
  vycol :: "string option"
  vzcol :: "string option"
  dustfracscol :: "string list"
  sdf_kernel :: py_object

text \<open>The \<open>params\<close> setter, lines 589 to 596.\<close>

definition set_params :: "sdf \<Rightarrow> params_arg \<Rightarrow> py_error + sdf" where
  "set_params self new_params =
     (case new_params of
        ParamsNone \<Rightarrow> Inr (self\<lparr>params := None\<rparr>)
      | ParamsOther \<Rightarrow> Inl TypeError
      | ParamsDict d \<Rightarrow> Inr (self\<lparr>params := Some d\<rparr>))"

text \<open>
  The test of every column setter, \<open>new_col in self or new_col is None\<close>: the label
  names a column, or it is \<open>None\<close>.
\<close>

definition col_accepted :: "sdf \<Rightarrow> string option \<Rightarrow> bool" where
  "col_accepted self new_col =
     (case new_col of None \<Rightarrow> True | Some c \<Rightarrow> has_column self c)"

definition set_xcol :: "sdf \<Rightarrow> string option \<Rightarrow> sdf" where
  "set_xcol self new_col = (if col_accepted self new_col then self\<lparr>xcol := new_col\<rparr> else self)"

definition set_ycol :: "sdf \<Rightarrow> string option \<Rightarrow> sdf" where
  "set_ycol self new_col = (if col_accepted self new_col then self\<lparr>ycol := new_col\<rparr> else self)"

definition set_zcol :: "sdf \<Rightarrow> string option \<Rightarrow> sdf" where
  "set_zcol self new_col = (if col_accepted self new_col then self\<lparr>zcol := new_col\<rparr> else self)"

definition set_hcol :: "sdf \<Rightarrow> string option \<Rightarrow> sdf" where
  "set_hcol self new_col = (if col_accepted self new_col then self\<lparr>hcol := new_col\<rparr> else self)"

definition set_mcol :: "sdf \<Rightarrow> string option \<Rightarrow> sdf" where
  "set_mcol self new_col = (if col_accepted self new_col then self\<lparr>mcol := new_col\<rparr> else self)"

definition set_rhocol :: "sdf \<Rightarrow> string option \<Rightarrow> sdf" where
  "set_rhocol self new_col =
     (if col_accepted self new_col then self\<lparr>rhocol := new_col\<rparr> else self)"

definition set_vxcol :: "sdf \<Rightarrow> string option \<Rightarrow> sdf" where
  "set_vxcol self new_col = (if col_accepted self new_col then self\<lparr>vxcol := new_col\<rparr> else self)"

definition set_vycol :: "sdf \<Rightarrow> string option \<Rightarrow> sdf" where
  "set_vycol self new_col = (if col_accepted self new_col then self\<lparr>vycol := new_col\<rparr> else self)"

definition set_vzcol :: "sdf \<Rightarrow> string option \<Rightarrow> sdf" where
  "set_vzcol self new_col = (if col_accepted self new_col then self\<lparr>vzcol := new_col\<rparr> else self)"

text \<open>The \<open>kernel\<close> setter, lines 765 to 768.\<close>

definition set_kernel :: "sdf \<Rightarrow> py_object \<Rightarrow> sdf" where
  "set_kernel self new_kernel =
     (if is_kernel new_kernel then self\<lparr>sdf_kernel := new_kernel\<rparr> else self)"

text \<open>
  \<open>_identify_special_columns\<close>, lines 149 to 198, one definition for each block of the
  method; every assignment goes through a setter.
\<close>

definition identify_xcol :: "sdf \<Rightarrow> sdf" where
  "identify_xcol self =
     (let cols = map fst (columns self)
      in if ''x'' \<in> set cols then set_xcol self (Some ''x'')
         else if ''rx'' \<in> set cols then set_xcol self (Some ''rx'')
         else if 0 < length cols then set_xcol self (Some (cols ! 0))
         else self)"

definition identify_ycol :: "sdf \<Rightarrow> sdf" where
  "identify_ycol self =
     (let cols = map fst (columns self)
      in if ''y'' \<in> set cols then set_ycol self (Some ''y'')
         else if ''ry'' \<in> set cols then set_ycol self (Some ''ry'')
         else if 1 < length cols then set_ycol self (Some (cols ! 1))
         else self)"

definition identify_zcol :: "sdf \<Rightarrow> sdf" where
  "identify_zcol self =
     (let cols = map fst (columns self)
      in if ''z'' \<in> set cols then set_zcol self (Some ''z'')
         else if ''rz'' \<in> set cols then set_zcol self (Some ''rz'')
         else self)"

definition identify_hcol :: "sdf \<Rightarrow> sdf" where
  "identify_hcol self =
     (if ''h'' \<in> set (map fst (columns self)) then set_hcol self (Some ''h'') else self)"

definition identify_mcol :: "sdf \<Rightarrow> sdf" where
  "identify_mcol self =
     (let cols = map fst (columns self)
      in if ''m'' \<in> set cols then set_mcol self (Some ''m'')
         else if ''mass'' \<in> set cols then set_mcol self (Some ''mass'')
         else self)"

definition identify_rhocol :: "sdf \<Rightarrow> sdf" where
  "identify_rhocol self =
     (let cols = map fst (columns self)
      in if ''rho'' \<in> set cols then set_rhocol self (Some ''rho'')
         else if ''density'' \<in> set cols then set_rhocol self (Some ''density'')
         else self)"

definition identify_vcols :: "sdf \<Rightarrow> sdf" where
  "identify_vcols self =
     (let cols = map fst (columns self);
          s1 = (if ''vx'' \<in> set cols then set_vxcol self (Some ''vx'') else self);
          s2 = (if ''vy'' \<in> set cols then set_vycol s1 (Some ''vy'') else s1)
      in if ''vz'' \<in> set cols then set_vzcol s2 (Some ''vz'') else s2)"

definition identify_dustfracs :: "sdf \<Rightarrow> sdf" where
  "identify_dustfracs self =
     self\<lparr>dustfracscol :=
            dustfracscol self
            @ filter (\<lambda>column. take 8 column = ''dustfrac'') (map fst (columns self))\<rparr>"

definition identify_special_columns :: "sdf \<Rightarrow> sdf" where
  "identify_special_columns self =
     identify_dustfracs (identify_vcols (identify_rhocol (identify_mcol (identify_hcol
       (identify_zcol (identify_ycol (identify_xcol self)))))))"

text \<open>
  \<open>__init__\<close>, lines 109 to 127. \<open>data\<close> is the frame the pandas constructor has built;
  \<open>cubic_spline\<close> stands for \<open>CubicSplineKernel()\<close>, whose class is outside the
  modelled sources.
\<close>

definition sdf_init :: "kernel \<Rightarrow> frame \<Rightarrow> params_arg \<Rightarrow> py_error + sdf" where
  "sdf_init cubic_spline data params_in =
     (let params0 = (if params_in = ParamsNone then ParamsDict Map.empty else params_in);
          self0 = \<lparr>index = index data, columns = columns data, params = None,
                   xcol = None, ycol = None, zcol = None, hcol = None, mcol = None,
                   rhocol = None, vxcol = None, vycol = None, vzcol = None,
                   dustfracscol = [], sdf_kernel = NoneObject\<rparr>
      in ebind (set_params self0 params0) (\<lambda>self1.
         Inr ((identify_special_columns self1)\<lparr>sdf_kernel := KernelObject cubic_spline\<rparr>)))"

text \<open>\<open>get_dim\<close>, line 794.\<close>

definition get_dim :: "sdf \<Rightarrow> nat" where
  "get_dim self = (if zcol self \<noteq> None then 3 else 2)"

text \<open>\<open>{label}.issubset(self.columns)\<close> and \<open>label in self.columns\<close> for a role label.\<close>

definition label_in_columns :: "sdf \<Rightarrow> string option \<Rightarrow> bool" where
  "label_in_columns self label =
     (case label of None \<Rightarrow> False | Some c \<Rightarrow> has_column self c)"

text \<open>\<open>self[label]\<close> for a role label; \<open>self[None]\<close> raises KeyError.\<close>

definition getlabel :: "sdf \<Rightarrow> string option \<Rightarrow> py_error + series" where
  "getlabel self label =
     (case label of None \<Rightarrow> Inl (KeyError ''None'') | Some c \<Rightarrow> getitem self c)"

definition dict_get :: "(string \<rightharpoonup> fval) \<Rightarrow> string \<Rightarrow> py_error + fval" where
  "dict_get d k = (case d k of None \<Rightarrow> Inl (KeyError k) | Some v \<Rightarrow> Inr v)"

text \<open>\<open>v ** n\<close> for a natural exponent.\<close>

fun fpow :: "fval \<Rightarrow> nat \<Rightarrow> fval" where
  "fpow v 0 = Fin 1"
| "fpow v (Suc n) = fmul v (fpow v n)"

text \<open>
  \<open>calc_density\<close>, lines 241 to 259. The mass is a Series, or the scalar of \<open>params\<close>
  broadcast over the rows. \<open>'hfact' not in self.params\<close> raises TypeError when
  \<open>params\<close> is \<open>None\<close>.
\<close>

definition calc_density :: "sdf \<Rightarrow> py_error + sdf" where
  "calc_density self =
     (if \<not> label_in_columns self (hcol self)
      then Inl (KeyError ''Missing smoothing length data in this SarracenDataFrame'')
      else case params self of
        None \<Rightarrow> Inl TypeError
      | Some ps \<Rightarrow>
          if ps ''hfact'' = None
          then Inl (KeyError ''hfact missing from params in this SarracenDataFrame.'')
          else if \<not> label_in_columns self (mcol self) \<and> ps ''mass'' = None
          then Inl (KeyError ''Missing particle mass data in this SarracenDataFrame.'')
          else
            ebind (if label_in_columns self (mcol self) then getlabel self (mcol self)
                   else ebind (dict_get ps ''mass'') (\<lambda>m. Inr (\<lambda>i. m))) (\<lambda>mass.
            ebind (dict_get ps ''hfact'') (\<lambda>hfact.
            ebind (getlabel self (hcol self)) (\<lambda>h.
            Inr (set_rhocol
                   (setitem self ''rho''
                      (\<lambda>i. fmul (mass i) (fpow (fdiv hfact (h i)) (get_dim self))))
                   (Some ''rho''))))))"

section \<open>Properties stated about the data frame\<close>

text \<open>
  The invariant of the column roles: every stored role label is \<open>None\<close> or names a
  column; and of the kernel: the stored object is a kernel.
\<close>

definition labels_valid :: "sdf \<Rightarrow> bool" where
  "labels_valid self =
     (col_accepted self (xcol self) \<and> col_accepted self (ycol self)
      \<and> col_accepted self (zcol self) \<and> col_accepted self (hcol self)
      \<and> col_accepted self (mcol self) \<and> col_accepted self (rhocol self)
      \<and> col_accepted self (vxcol self) \<and> col_accepted self (vycol self)
      \<and> col_accepted self (vzcol self))"

definition sdf_valid :: "sdf \<Rightarrow> bool" where
  "sdf_valid self = (labels_valid self \<and> is_kernel (sdf_kernel self))"

text \<open>The density as the documentation of \<open>calc_density\<close> gives it: \<open>m (hfact / h) ^ ndim\<close>.\<close>

definition density_spec :: "fval \<Rightarrow> fval \<Rightarrow> fval \<Rightarrow> nat \<Rightarrow> fval" where
  "density_spec mass hfact h d = fmul mass (fpow (fdiv hfact h) d)"

section \<open>Example inputs\<close>

text \<open>
  A two-dimensional kernel of radius 2 whose weight is 1 everywhere, and a frame with one
  particle at \<open>(1, 1)\<close> with \<open>h = 1/2\<close>, \<open>m = 1\<close>, \<open>rho = 1\<close> and target value 1.
\<close>

definition flat_kernel :: kernel where
  "flat_kernel = \<lparr>ndims = 2, radkernel = Fin 2, w = (\<lambda>q. Fin 1)\<rparr>"

definition one_particle :: frame where
  "one_particle =
     \<lparr>index = [0],
      columns = [(''x'', \<lambda>i. Fin 1), (''y'', \<lambda>i. Fin 1), (''h'', \<lambda>i. Fin (1 / 2)),
                 (''m'', \<lambda>i. Fin 1), (''rho'', \<lambda>i. Fin 1), (''t'', \<lambda>i. Fin 1)]\<rparr>"

text \<open>
  Addition is associative and commutative on this idealised type, so the grid can be
  described as a sum; on real doubles the order of summation changes the rounding.
\<close>

instantiation fval :: comm_monoid_add
begin

definition zero_fval :: fval where
  "zero_fval = Fin 0"

definition plus_fval :: "fval \<Rightarrow> fval \<Rightarrow> fval" where
  "plus_fval = fadd"

instance
proof
  fix a b c :: fval
  show "a + b + c = a + (b + c)"
    unfolding plus_fval_def by (cases a; cases b; cases c) simp_all
  show "a + b = b + a"
    unfolding plus_fval_def by (cases a; cases b) simp_all
  show "0 + a = a"
    unfolding plus_fval_def zero_fval_def by (cases a) simp_all
qed

end

section \<open>Errors of the interpolation\<close>

lemma ebind_Inl: "ebind m f = Inl e \<longleftrightarrow> m = Inl e \<or> (\<exists>v. m = Inr v \<and> f v = Inl e)"
  by (cases m) (simp_all add: ebind_def)

lemma ebind_Inr: "ebind m f = Inr r \<longleftrightarrow> (\<exists>v. m = Inr v \<and> f v = Inr r)"
  by (cases m) (simp_all add: ebind_def)

lemma efold_Inl: "efold f xs s = Inl e \<Longrightarrow> \<exists>a s'. a \<in> set xs \<and> f a s' = Inl e"
proof (induction xs arbitrary: s)
  case Nil
  then show ?case by simp
next
  case (Cons a xs)
  show ?case
  proof (cases "f a s")
    case (Inl e')
    with Cons.prems show ?thesis by auto
  next
    case (Inr s')
    with Cons.prems have "efold f xs s' = Inl e" by simp
    from Cons.IH [OF this] show ?thesis by auto
  qed
qed

lemma getitem_error: "getitem df c = Inl e \<Longrightarrow> e \<notin> validation_errors"
  by (auto simp: getitem_def validation_errors_def split: option.splits)

lemma to_int_error: "to_int v = Inl e \<Longrightarrow> e \<notin> validation_errors"
  by (cases v) (auto simp: validation_errors_def)

lemma py_div_error: "py_div a b = Inl e \<Longrightarrow> e \<notin> validation_errors"
  by (auto simp: py_div_def validation_errors_def split: if_splits)

lemma py_index_error: "py_index n i = Inl e \<Longrightarrow> e \<notin> validation_errors"
  by (auto simp: py_index_def validation_errors_def split: if_splits)

lemma axis_range_error: "axis_range lo hi = Inl e \<Longrightarrow> e \<notin> validation_errors"
  by (auto simp: axis_range_def ebind_Inl dest: to_int_error)

lemma image_add_error: "image_add img j i v = Inl e \<Longrightarrow> e \<notin> validation_errors"
  by (auto simp: image_add_def ebind_Inl dest: py_index_error)

lemma pixel_step_error: "pixel_step kern p dx2i dy2v jpix ipix img = Inl e \<Longrightarrow> e \<notin> validation_errors"
  by (auto simp: pixel_step_def ebind_Inl Let_def dest: py_index_error image_add_error)

lemma dy2_error: "dy2 ymin pixwidthy p jpix = Inl e \<Longrightarrow> e \<notin> validation_errors"
  by (auto simp: dy2_def ebind_Inl Let_def dest: py_div_error)

lemma dx2i_store_error: "dx2i_store xmin pixwidthx p ipix dx2i = Inl e \<Longrightarrow> e \<notin> validation_errors"
  by (auto simp: dx2i_store_def dx2_def ebind_Inl dest: py_div_error py_index_error)

lemma row_step_error: "row_step kern pixwidthy ymin p dx2i jpix img = Inl e \<Longrightarrow> e \<notin> validation_errors"
  by (auto simp: row_step_def ebind_Inl dest!: efold_Inl dest: dy2_error axis_range_error pixel_step_error)

lemma accumulate_error:
  "accumulate kern pixwidthx pixwidthy xmin ymin pixcountx p img = Inl e \<Longrightarrow> e \<notin> validation_errors"
  by (auto simp: accumulate_def ebind_Inl dest!: efold_Inl dest: axis_range_error dx2i_store_error row_step_error)

lemma build_parts_error:
  "build_parts data x y target kern pixwidthx pixwidthy xmin ymin pixcountx pixcounty = Inl e
     \<Longrightarrow> e \<notin> validation_errors"
  unfolding build_parts_def Let_def ebind_Inl
  by (elim disjE exE conjE) (auto dest: getitem_error)

lemma itertuples_error: "itertuples parts = Inl e \<Longrightarrow> e \<notin> validation_errors"
  unfolding itertuples_def ebind_Inl
  by (elim disjE exE conjE) (auto dest: getitem_error)

lemma validate_None:
  "validate kern pixwidthx pixwidthy pixcountx pixcounty = None \<longleftrightarrow>
     \<not> (fle pixwidthx (Fin 0) \<or> fle pixwidthy (Fin 0) \<or> pixcountx \<le> 0 \<or> pixcounty \<le> 0
        \<or> ndims kern \<noteq> 2)"
  by (simp add: validate_def)

lemma validate_Some:
  "validate kern pixwidthx pixwidthy pixcountx pixcounty = Some e \<Longrightarrow> e \<in> validation_errors"
  by (auto simp: validate_def validation_errors_def split: if_splits)

text \<open>
  Claim C4. \<open>interpolate2D\<close> raises one of its five validation errors exactly when a pixel
  width or a pixel count is not positive or the kernel is not two-dimensional. The error
  is then the result whatever the data, the labels and the origin are: no column is read,
  no array is returned. When all five conditions are met, none of the five errors is
  raised.
\<close>

theorem interpolate2D_validation:
  "((fle pixwidthx (Fin 0) \<or> fle pixwidthy (Fin 0) \<or> pixcountx \<le> 0 \<or> pixcounty \<le> 0
      \<or> ndims kern \<noteq> 2) \<longrightarrow>
      (\<exists>e \<in> validation_errors. \<forall>data x y target xmin ymin.
         interpolate2D data x y target kern pixwidthx pixwidthy xmin ymin pixcountx pixcounty
           = Inl e))
   \<and> (\<not> (fle pixwidthx (Fin 0) \<or> fle pixwidthy (Fin 0) \<or> pixcountx \<le> 0 \<or> pixcounty \<le> 0
      \<or> ndims kern \<noteq> 2) \<longrightarrow>
      (\<forall>e \<in> validation_errors.
         interpolate2D data x y target kern pixwidthx pixwidthy xmin ymin pixcountx pixcounty
           \<noteq> Inl e))"
proof (intro conjI impI)
  assume bad: "fle pixwidthx (Fin 0) \<or> fle pixwidthy (Fin 0) \<or> pixcountx \<le> 0 \<or> pixcounty \<le> 0
      \<or> ndims kern \<noteq> 2"
  then obtain e where e: "validate kern pixwidthx pixwidthy pixcountx pixcounty = Some e"
    using validate_None [of kern pixwidthx pixwidthy pixcountx pixcounty] by auto
  then have "e \<in> validation_errors" by (rule validate_Some)
  moreover have "\<forall>data x y target xmin ymin.
         interpolate2D data x y target kern pixwidthx pixwidthy xmin ymin pixcountx pixcounty
           = Inl e"
    using e by (simp add: interpolate2D_def)
  ultimately show "\<exists>e \<in> validation_errors. \<forall>data x y target xmin ymin.
         interpolate2D data x y target kern pixwidthx pixwidthy xmin ymin pixcountx pixcounty
           = Inl e" by blast
next
  assume ok: "\<not> (fle pixwidthx (Fin 0) \<or> fle pixwidthy (Fin 0) \<or> pixcountx \<le> 0 \<or> pixcounty \<le> 0
      \<or> ndims kern \<noteq> 2)"
  then have v: "validate kern pixwidthx pixwidthy pixcountx pixcounty = None"
    using validate_None by blast
  show "\<forall>e \<in> validation_errors.
         interpolate2D data x y target kern pixwidthx pixwidthy xmin ymin pixcountx pixcounty
           \<noteq> Inl e"
  proof (intro ballI notI)
    fix e assume "e \<in> validation_errors"
      and "interpolate2D data x y target kern pixwidthx pixwidthy xmin ymin pixcountx pixcounty = Inl e"
    then show False
      using v
      by (auto simp: interpolate2D_def Let_def ebind_Inl
          dest!: efold_Inl dest: build_parts_error itertuples_error accumulate_error)
  qed
qed

theorem interpolate2D_validation_witness:
  "interpolate2D \<lparr>index = [], columns = []\<rparr> ''x'' ''y'' ''t'' flat_kernel (Fin 1) (Fin 1)
      (Fin 0) (Fin 0) 0 4 \<in> Inl ` validation_errors
   \<and> interpolate2D one_particle ''x'' ''y'' ''t'' flat_kernel (Fin 1) (Fin 1)
      (Fin 0) (Fin 0) 4 4 \<notin> Inl ` validation_errors"
proof -
  have bad: "fle (Fin 1) (Fin 0) \<or> fle (Fin 1) (Fin 0) \<or> (0::int) \<le> 0 \<or> (4::int) \<le> 0
      \<or> ndims flat_kernel \<noteq> 2"
    by simp
  have ok: "\<not> (fle (Fin 1) (Fin 0) \<or> fle (Fin 1) (Fin 0) \<or> (4::int) \<le> 0 \<or> (4::int) \<le> 0
      \<or> ndims flat_kernel \<noteq> 2)"
    by (simp add: flat_kernel_def)
  from bad interpolate2D_validation [of "Fin 1" "Fin 1" 0 4 flat_kernel]
  have "\<exists>e \<in> validation_errors. \<forall>data x y target xmin ymin.
         interpolate2D data x y target flat_kernel (Fin 1) (Fin 1) xmin ymin 0 4 = Inl e"
    by blast
  then have first: "interpolate2D \<lparr>index = [], columns = []\<rparr> ''x'' ''y'' ''t'' flat_kernel
      (Fin 1) (Fin 1) (Fin 0) (Fin 0) 0 4 \<in> Inl ` validation_errors"
    by auto
  from ok interpolate2D_validation [of "Fin 1" "Fin 1" 4 4 flat_kernel one_particle
      "''x''" "''y''" "''t''" "Fin 0" "Fin 0"]
  have "\<forall>e \<in> validation_errors. interpolate2D one_particle ''x'' ''y'' ''t'' flat_kernel
      (Fin 1) (Fin 1) (Fin 0) (Fin 0) 4 4 \<noteq> Inl e"
    by blast
  then have second: "interpolate2D one_particle ''x'' ''y'' ''t'' flat_kernel (Fin 1) (Fin 1)
      (Fin 0) (Fin 0) 4 4 \<notin> Inl ` validation_errors"
    by auto
  from first second show ?thesis by simp
qed

end
